theory Spec2Isabelle
  imports Complex_Main "HOL-Library.Sublist"
begin

section \<open>Data model of the floor plan editor (uinegative.jsx)\<close>

text \<open>
  The component \<open>FloorPlanGenerator\<close> keeps its data in React state cells. Each cell is a
  field of the record \<open>editor\<close> below; an event handler is a function from the state of
  the render in which it was created to the state after its \<open>set...\<close> calls.

  JavaScript has a single number type, the IEEE 754 doubles. Every number the editor
  stores in a region, a room or the settings is an integer literal or the value of
  \<open>parseInt(...) || d\<close>: a double whose value is an integer, or an infinity. The type
  \<open>number\<close> holds these values and \<open>NaN\<close>, which \<open>parseInt\<close> can return; \<open>Num n\<close> is the
  double whose value is the integer \<open>n\<close>, and stands for both signs of zero when \<open>n = 0\<close>.
  The statistics are literal constants of the source and are modelled as \<open>real\<close> and
  \<open>int\<close>. Strings are \<open>string\<close>, a character being a code unit below 256.
\<close>

datatype number = NaN | Infinity | MinusInfinity | Num int

record region =
  x :: number
  y :: number
  width :: number
  height :: number

record room =
  name :: string
  width :: number
  height :: number
  maxExpansion :: number

record adjacency =
  room1 :: string
  room2 :: string

record settings =
  maxAttempts :: number
  enableExpansion :: bool

record statistics =
  floorArea :: real
  roomArea :: real
  spaceUtilization :: real
  adjacencyScore :: int
  totalAdjacencies :: int
  adjacentPairs :: "(string \<times> string) list"

text \<open>
  The mock functions return \<open>{ success: true }\<close>; \<open>placeRooms\<close> returns the same object
  extended by a \<open>statistics\<close> field.
\<close>

record ack =
  success :: bool

record place_result = ack +
  statistics :: statistics

text \<open>
  The browser console is the one output channel of the program besides its state. A call
  \<open>console.log(a, b, ...)\<close> appends one line, the list of its arguments. An argument is a
  string literal, the array of regions, or a template literal. A template literal is
  recorded by its parts in order, the literal text and the substituted values; the string
  that the console shows is the concatenation of the parts, each converted to a string by
  the language.
\<close>

datatype template_part = Str string | Val number | Flag bool

datatype console_arg = Text string | Template "template_part list" | RegionList "region list"

type_synonym console = "console_arg list list"

record editor =
  regions :: "region list"
  rooms :: "room list"
  adjacencies :: "adjacency list"
  settings :: settings
  results :: "statistics option"
  activeTab :: string
  newRegion :: region
  newRoom :: room
  newAdjacency :: adjacency
  console :: console

text \<open>The errors the handlers can raise: reading a property of \<open>undefined\<close>.\<close>

datatype error = TypeError

section \<open>Numbers of the language\<close>

text \<open>
  The Number value for an integer \<open>m\<close>: \<open>m\<close> itself when its magnitude is below \<open>2^53\<close>;
  otherwise \<open>m\<close> rounded to 53 significant bits, to the nearest and in a tie to the even
  significand, and an infinity when the rounded magnitude reaches \<open>2^1024\<close>. A magnitude
  of \<open>bit_length a\<close> bits keeps its upper 53 bits \<open>q\<close>; the lower \<open>e\<close> bits \<open>r\<close> decide the
  rounding.
\<close>

fun bit_length :: "nat \<Rightarrow> nat" where
  "bit_length n = (if n = 0 then 0 else Suc (bit_length (n div 2)))"

declare bit_length.simps [simp del]

definition round_to_53_bits :: "nat \<Rightarrow> nat" where
  "round_to_53_bits a =
     (let e = bit_length a - 53;
          q = a div 2 ^ e;
          r = a mod 2 ^ e;
          half = 2 ^ (e - 1);
          q' = (if half < r \<or> (r = half \<and> odd q) then q + 1 else q)
      in q' * 2 ^ e)"

definition number_of_integer :: "int \<Rightarrow> number" where
  "number_of_integer m =
     (let a = nat \<bar>m\<bar>
      in if a < 2 ^ 53 then Num m
         else
           let v = round_to_53_bits a
           in if 2 ^ 1024 \<le> v then (if m < 0 then MinusInfinity else Infinity)
              else Num (if m < 0 then - int v else int v))"

text \<open>
  \<open>parseInt(string)\<close> with no radix (ECMAScript 19.2.5): leading white space is skipped,
  one sign is read, a prefix \<open>0x\<close> or \<open>0X\<close> selects radix 16, and the longest run of digits
  of the radix is read as an integer; the result is the Number value for that integer
  with its sign, and \<open>NaN\<close> when there is no digit. For a decimal run of more than 20
  significant digits the standard lets an implementation round a nearby integer instead;
  the model rounds the integer itself, as the engines do.
\<close>

definition isStrWhiteSpaceChar :: "char \<Rightarrow> bool" where
  "isStrWhiteSpaceChar c =
     (c \<in> set [CHR 0x09, CHR 0x0A, CHR 0x0B, CHR 0x0C, CHR 0x0D, CHR 0x20, CHR 0xA0])"

definition digitValue :: "char \<Rightarrow> nat option" where
  "digitValue c =
     (let n = (of_char c :: nat)
      in if 48 \<le> n \<and> n \<le> 57 then Some (n - 48)
         else if 97 \<le> n \<and> n \<le> 122 then Some (n - 87)
         else if 65 \<le> n \<and> n \<le> 90 then Some (n - 55)
         else None)"

definition isRadixDigit :: "nat \<Rightarrow> char \<Rightarrow> bool" where
  "isRadixDigit R c = (case digitValue c of Some d \<Rightarrow> d < R | None \<Rightarrow> False)"

definition parseInt :: "string \<Rightarrow> number" where
  "parseInt inputString =
     (let S = dropWhile isStrWhiteSpaceChar inputString;
          sign = (if take 1 S = ''-'' then - 1 else (1 :: int));
          S1 = (if take 1 S = ''+'' \<or> take 1 S = ''-'' then drop 1 S else S);
          hex = (take 2 S1 = ''0x'' \<or> take 2 S1 = ''0X'');
          R = (if hex then 16 else 10);
          S2 = (if hex then drop 2 S1 else S1);
          Z = takeWhile (isRadixDigit R) S2
      in if Z = [] then NaN
         else number_of_integer
                (sign * int (foldl (\<lambda>acc c. case digitValue c of
                                               Some d \<Rightarrow> acc * R + d
                                             | None \<Rightarrow> acc) 0 Z)))"

text \<open>
  \<open>n || d\<close> on numbers: \<open>NaN\<close> and the two zeros are falsy and give \<open>d\<close>, every other
  number, the infinities included, is itself.
\<close>

definition number_or :: "number \<Rightarrow> number \<Rightarrow> number" where
  "number_or n d =
     (case n of NaN \<Rightarrow> d | Num v \<Rightarrow> if v = 0 then d else Num v | _ \<Rightarrow> n)"

text \<open>
  The literal \<open>0.8\<close> denotes the IEEE 754 double nearest to \<open>4/5\<close>, which is
  \<open>3602879701896397 / 2^52\<close>.
\<close>

definition double_0_8 :: real where
  "double_0_8 = 3602879701896397 / 4503599627370496"

section \<open>The mock placement functions\<close>

definition mock_createFloorPlan :: "region list \<Rightarrow> console \<Rightarrow> ack \<times> console" where
  "mock_createFloorPlan rgns c =
     (\<lparr>success = True\<rparr>,
      c @ [[Text ''Creating floor plan with regions:'', RegionList rgns]])"

definition mock_addRoom ::
  "string \<Rightarrow> number \<Rightarrow> number \<Rightarrow> number \<Rightarrow> console \<Rightarrow> ack \<times> console" where
  "mock_addRoom nm w h mx c =
     (\<lparr>success = True\<rparr>,
      c @ [[Template [Str ''Adding room: '', Str nm, Str '' ('', Val w, Str ''x'', Val h,
                      Str ''), max expansion: '', Val mx]]])"

definition mock_addAdjacency :: "string \<Rightarrow> string \<Rightarrow> console \<Rightarrow> ack \<times> console" where
  "mock_addAdjacency r1 r2 c =
     (\<lparr>success = True\<rparr>,
      c @ [[Template [Str ''Adding adjacency between '', Str r1, Str '' and '', Str r2]]])"

definition placeRooms_statistics :: statistics where
  "placeRooms_statistics =
     \<lparr>floorArea = 300,
      roomArea = 240,
      spaceUtilization = double_0_8,
      adjacencyScore = 5,
      totalAdjacencies = 7,
      adjacentPairs =
        [(''Living Room'', ''Kitchen''), (''Kitchen'', ''Dining''),
         (''Bedroom'', ''Bathroom''), (''Living Room'', ''Bedroom''),
         (''Bathroom'', ''Kitchen'')]\<rparr>"

definition mock_placeRooms :: "number \<Rightarrow> bool \<Rightarrow> console \<Rightarrow> place_result \<times> console" where
  "mock_placeRooms attempts expansion c =
     (\<lparr>success = True, statistics = placeRooms_statistics\<rparr>,
      c @ [[Template [Str ''Placing rooms with '', Val attempts,
                      Str '' attempts, expansion: '', Flag expansion]]])"

section \<open>Generating the floor plan\<close>

text \<open>
  \<open>generateFloorPlan\<close> calls the mock functions in sequence, the two \<open>forEach\<close> loops in
  list order, and stores the statistics when the placement reports success.
\<close>

definition generateFloorPlan :: "editor \<Rightarrow> editor" where
  "generateFloorPlan s =
     (let c1 = snd (mock_createFloorPlan (regions s) (console s));
          c2 = fold (\<lambda>rm c. snd (mock_addRoom (name rm) (room.width rm) (room.height rm)
                                    (maxExpansion rm) c)) (rooms s) c1;
          c3 = fold (\<lambda>adj c. snd (mock_addAdjacency (room1 adj) (room2 adj) c))
                 (adjacencies s) c2;
          (result, c4) = mock_placeRooms (maxAttempts (settings s))
                           (enableExpansion (settings s)) c3
      in if success result
         then s\<lparr>results := Some (statistics result), console := c4\<rparr>
         else s\<lparr>console := c4\<rparr>)"

section \<open>Event handlers of the editor\<close>

text \<open>
  \<open>removeRoom(index)\<close>: reading \<open>rooms[index].name\<close> beyond the end of the list raises a
  \<open>TypeError\<close>; otherwise the adjacencies that mention the room's name are filtered
  out and \<open>splice(index, 1)\<close> removes the room from a copy of the list.
\<close>

definition removeRoom :: "nat \<Rightarrow> editor \<Rightarrow> error + editor" where
  "removeRoom index s =
     (if index < length (rooms s) then
        let roomName = name (rooms s ! index);
            updatedAdjacencies =
              filter (\<lambda>adj. room1 adj \<noteq> roomName \<and> room2 adj \<noteq> roomName) (adjacencies s);
            updatedRooms = take index (rooms s) @ drop (Suc index) (rooms s)
        in Inr (s\<lparr>rooms := updatedRooms, adjacencies := updatedAdjacencies\<rparr>)
      else Inl TypeError)"

text \<open>
  The \<open>onChange\<close> handler of the name field in row \<open>index\<close> of the room table. The row
  exists only for an index within the list. The adjacencies are rewritten only when the
  old name is a non-empty string, and in one adjacency the first matching branch wins.
\<close>

definition roomName_onChange :: "nat \<Rightarrow> string \<Rightarrow> editor \<Rightarrow> error + editor" where
  "roomName_onChange index newName s =
     (if index < length (rooms s) then
        let oldName = name (rooms s ! index);
            updatedRooms = (rooms s)[index := (rooms s ! index)\<lparr>name := newName\<rparr>];
            s1 = s\<lparr>rooms := updatedRooms\<rparr>
        in Inr (if oldName \<noteq> [] then
                  s1\<lparr>adjacencies :=
                       map (\<lambda>adj. if room1 adj = oldName then adj\<lparr>room1 := newName\<rparr>
                                    else if room2 adj = oldName then adj\<lparr>room2 := newName\<rparr>
                                    else adj) (adjacencies s)\<rparr>
                else s1)
      else Inl TypeError)"

text \<open>
  The \<open>onChange\<close> handlers of the width and height fields in row \<open>index\<close> of the room
  table store \<open>parseInt(value) || 1\<close> in the room of that row.
\<close>

definition roomWidth_onChange :: "nat \<Rightarrow> string \<Rightarrow> editor \<Rightarrow> error + editor" where
  "roomWidth_onChange index v s =
     (if index < length (rooms s)
      then Inr (s\<lparr>rooms :=
                    (rooms s)[index := (rooms s ! index)
                                \<lparr>room.width := number_or (parseInt v) (Num 1)\<rparr>]\<rparr>)
      else Inl TypeError)"

definition roomHeight_onChange :: "nat \<Rightarrow> string \<Rightarrow> editor \<Rightarrow> error + editor" where
  "roomHeight_onChange index v s =
     (if index < length (rooms s)
      then Inr (s\<lparr>rooms :=
                    (rooms s)[index := (rooms s ! index)
                                \<lparr>room.height := number_or (parseInt v) (Num 1)\<rparr>]\<rparr>)
      else Inl TypeError)"

text \<open>
  The two selects in row \<open>index\<close> of the adjacency table assign the chosen room name to
  the adjacency of that row; any room name can be chosen, also the one on the other side.
\<close>

definition adjacency_room1_onChange :: "nat \<Rightarrow> string \<Rightarrow> editor \<Rightarrow> error + editor" where
  "adjacency_room1_onChange index v s =
     (if index < length (adjacencies s)
      then Inr (s\<lparr>adjacencies :=
                    (adjacencies s)[index := (adjacencies s ! index)\<lparr>room1 := v\<rparr>]\<rparr>)
      else Inl TypeError)"

definition adjacency_room2_onChange :: "nat \<Rightarrow> string \<Rightarrow> editor \<Rightarrow> error + editor" where
  "adjacency_room2_onChange index v s =
     (if index < length (adjacencies s)
      then Inr (s\<lparr>adjacencies :=
                    (adjacencies s)[index := (adjacencies s ! index)\<lparr>room2 := v\<rparr>]\<rparr>)
      else Inl TypeError)"

text \<open>The two selects of the new-adjacency row store the chosen option's value.\<close>

definition newAdjacency_room1_onChange :: "string \<Rightarrow> editor \<Rightarrow> editor" where
  "newAdjacency_room1_onChange v s = s\<lparr>newAdjacency := (newAdjacency s)\<lparr>room1 := v\<rparr>\<rparr>"

definition newAdjacency_room2_onChange :: "string \<Rightarrow> editor \<Rightarrow> editor" where
  "newAdjacency_room2_onChange v s = s\<lparr>newAdjacency := (newAdjacency s)\<lparr>room2 := v\<rparr>\<rparr>"

definition addAdjacency :: "editor \<Rightarrow> editor" where
  "addAdjacency s =
     (let na = newAdjacency s
      in if room1 na \<noteq> [] \<and> room2 na \<noteq> [] \<and> room1 na \<noteq> room2 na then
           let exists = list_ex (\<lambda>adj. (room1 adj = room1 na \<and> room2 adj = room2 na) \<or>
                                        (room1 adj = room2 na \<and> room2 adj = room1 na))
                          (adjacencies s)
           in if \<not> exists
              then s\<lparr>adjacencies := adjacencies s @ [na],
                     newAdjacency := \<lparr>room1 = [], room2 = []\<rparr>\<rparr>
              else s
         else s)"

text \<open>The \<open>onChange\<close> handler of the Maximum Attempts field.\<close>

definition maxAttempts_onChange :: "string \<Rightarrow> editor \<Rightarrow> editor" where
  "maxAttempts_onChange v s =
     s\<lparr>settings := (settings s)\<lparr>maxAttempts := number_or (parseInt v) (Num 1000)\<rparr>\<rparr>"

section \<open>The initial state\<close>

definition initial_state :: editor where
  "initial_state =
     \<lparr>regions =
        [\<lparr>x = Num 0, y = Num 0, width = Num 5, height = Num 15\<rparr>,
         \<lparr>x = Num 5, y = Num 0, width = Num 10, height = Num 5\<rparr>,
         \<lparr>x = Num 15, y = Num 0, width = Num 5, height = Num 15\<rparr>],
      rooms =
        [\<lparr>name = ''Living Room'', width = Num 6, height = Num 4, maxExpansion = Num 10\<rparr>,
         \<lparr>name = ''Kitchen'', width = Num 5, height = Num 4, maxExpansion = Num 8\<rparr>,
         \<lparr>name = ''Dining'', width = Num 4, height = Num 4, maxExpansion = Num 6\<rparr>,
         \<lparr>name = ''Bedroom'', width = Num 5, height = Num 5, maxExpansion = Num 5\<rparr>,
         \<lparr>name = ''Bathroom'', width = Num 3, height = Num 3, maxExpansion = Num 2\<rparr>],
      adjacencies =
        [\<lparr>room1 = ''Living Room'', room2 = ''Kitchen''\<rparr>,
         \<lparr>room1 = ''Kitchen'', room2 = ''Dining''\<rparr>,
         \<lparr>room1 = ''Living Room'', room2 = ''Bedroom''\<rparr>,
         \<lparr>room1 = ''Bedroom'', room2 = ''Bathroom''\<rparr>,
         \<lparr>room1 = ''Bathroom'', room2 = ''Kitchen''\<rparr>],
      settings = \<lparr>maxAttempts = Num 5000, enableExpansion = True\<rparr>,
      results = None,
      activeTab = ''floorPlan'',
      newRegion = \<lparr>x = Num 0, y = Num 0, width = Num 5, height = Num 5\<rparr>,
      newRoom = \<lparr>name = [], width = Num 4, height = Num 4, maxExpansion = Num 5\<rparr>,
      newAdjacency = \<lparr>room1 = [], room2 = []\<rparr>,
      console = []\<rparr>"

section \<open>Notions the claims are stated with\<close>

text \<open>
  None of the following is code of the editor. They name what the claims speak of: a
  negative number, the areas that the infeasibility scenario compares, the adjacency list
  as a list of pairs, an unordered pair being listed already, and referential integrity
  of the adjacency list. An area is defined when both sides are finite numbers, and a
  total when every area in it is. The sum of the regions' areas is an upper bound of the
  area of their union, and equal to it when the regions are disjoint, as the three
  default regions are.
\<close>

fun negative :: "number \<Rightarrow> bool" where
  "negative (Num n) = (n < 0)"
| "negative MinusInfinity = True"
| "negative Infinity = False"
| "negative NaN = False"

fun area :: "number \<Rightarrow> number \<Rightarrow> int option" where
  "area (Num w) (Num h) = Some (w * h)"
| "area _ _ = None"

definition total_room_base_area :: "room list \<Rightarrow> int option" where
  "total_room_base_area rs =
     map_option sum_list (those (map (\<lambda>r. area (room.width r) (room.height r)) rs))"

definition total_region_area :: "region list \<Rightarrow> int option" where
  "total_region_area rs =
     map_option sum_list (those (map (\<lambda>r. area (region.width r) (region.height r)) rs))"

definition input_pairs :: "editor \<Rightarrow> (string \<times> string) list" where
  "input_pairs s = map (\<lambda>adj. (room1 adj, room2 adj)) (adjacencies s)"

definition pair_listed :: "adjacency \<Rightarrow> adjacency list \<Rightarrow> bool" where
  "pair_listed na adjs =
     list_ex (\<lambda>adj. (room1 adj = room1 na \<and> room2 adj = room2 na) \<or>
                     (room1 adj = room2 na \<and> room2 adj = room1 na)) adjs"

definition room_named :: "room list \<Rightarrow> string \<Rightarrow> bool" where
  "room_named rs n = list_ex (\<lambda>r. name r = n) rs"

definition referential_integrity :: "editor \<Rightarrow> bool" where
  "referential_integrity s =
     list_all (\<lambda>adj. room_named (rooms s) (room1 adj) \<and> room_named (rooms s) (room2 adj))
       (adjacencies s)"

definition self_paired :: "string \<Rightarrow> adjacency list \<Rightarrow> bool" where
  "self_paired nm adjs = list_ex (\<lambda>adj. room1 adj = nm \<and> room2 adj = nm) adjs"

text \<open>
  States of the editor used as concrete inputs, each reached from the initial state by
  handlers of the forms: the two selects of the new-adjacency row set to a pair that is
  listed in the other order, or to a pair that is not listed; \<open>1\<close> typed into the
  Maximum Attempts field.
\<close>

definition duplicate_draft_state :: editor where
  "duplicate_draft_state =
     newAdjacency_room2_onChange ''Living Room''
       (newAdjacency_room1_onChange ''Kitchen'' initial_state)"

definition draft_state :: editor where
  "draft_state =
     newAdjacency_room2_onChange ''Bedroom''
       (newAdjacency_room1_onChange ''Dining'' initial_state)"

definition single_attempt_state :: editor where
  "single_attempt_state = maxAttempts_onChange ''1'' initial_state"

section \<open>Facts about the generation\<close>

lemma generate_results: "results (generateFloorPlan s) = Some placeRooms_statistics"
  by (simp add: generateFloorPlan_def mock_placeRooms_def Let_def)

lemma generate_state:
  "generateFloorPlan s =
     s\<lparr>results := Some placeRooms_statistics, console := console (generateFloorPlan s)\<rparr>"
  by (simp add: generateFloorPlan_def mock_placeRooms_def Let_def)

lemma fold_log: "fold (\<lambda>a c. c @ [f a]) xs c = c @ map f xs"
  by (induction xs arbitrary: c) auto

lemma generate_console:
  "console (generateFloorPlan s) =
     console s @
     [[Text ''Creating floor plan with regions:'', RegionList (regions s)]] @
     map (\<lambda>rm. [Template [Str ''Adding room: '', Str (name rm), Str '' ('',
                           Val (room.width rm), Str ''x'', Val (room.height rm),
                           Str ''), max expansion: '', Val (maxExpansion rm)]]) (rooms s) @
     map (\<lambda>adj. [Template [Str ''Adding adjacency between '', Str (room1 adj), Str '' and '',
                            Str (room2 adj)]]) (adjacencies s) @
     [[Template [Str ''Placing rooms with '', Val (maxAttempts (settings s)),
                 Str '' attempts, expansion: '', Flag (enableExpansion (settings s))]]]"
  by (simp add: generateFloorPlan_def mock_placeRooms_def mock_createFloorPlan_def
      mock_addRoom_def mock_addAdjacency_def Let_def fold_log)

lemma generate_last_line:
  "last (console (generateFloorPlan s)) =
     [Template [Str ''Placing rooms with '', Val (maxAttempts (settings s)),
                Str '' attempts, expansion: '', Flag (enableExpansion (settings s))]]"
  by (simp add: generate_console)

text \<open>The double of the literal \<open>0.8\<close> lies within half a unit in the last place of \<open>4/5\<close>.\<close>

lemma double_0_8_nearest: "\<bar>double_0_8 - 4 / 5\<bar> \<le> 1 / 2 ^ 54"
  by (simp add: double_0_8_def)

section \<open>Facts about numbers\<close>

lemma number_of_small_integer:
  assumes "\<bar>m\<bar> < 2 ^ 53"
  shows "number_of_integer m = Num m"
proof -
  from assms have "nat \<bar>m\<bar> < 2 ^ 53" by simp
  then show ?thesis by (simp add: number_of_integer_def Let_def)
qed

text \<open>A positive number of \<open>bit_length n\<close> bits lies between the powers of two around it.\<close>

lemma bit_length_bounds:
  "0 < n \<Longrightarrow> 2 ^ (bit_length n - 1) \<le> n \<and> n < 2 ^ bit_length n"
proof (induction n rule: bit_length.induct)
  case (1 n)
  show ?case
  proof (cases "n div 2 = 0")
    case True
    with "1.prems" have "n = 1" by (simp add: div_eq_0_iff)
    then show ?thesis by (simp add: bit_length.simps)
  next
    case False
    then have pos: "0 < n div 2" by simp
    from "1.prems" have n0: "n \<noteq> 0" by simp
    from "1.IH" [OF n0 pos]
    have ih: "2 ^ (bit_length (n div 2) - 1) \<le> n div 2" "n div 2 < 2 ^ bit_length (n div 2)"
      by simp_all
    from pos have bl: "0 < bit_length (n div 2)"
      by (subst bit_length.simps) simp
    have eq: "bit_length n = Suc (bit_length (n div 2))"
      using n0 by (subst bit_length.simps) simp
    from bl have "(2::nat) ^ bit_length (n div 2) = 2 * 2 ^ (bit_length (n div 2) - 1)"
      by (cases "bit_length (n div 2)") simp_all
    with ih have "2 ^ bit_length (n div 2) \<le> n" by linarith
    moreover from ih(2) have "n < 2 * 2 ^ bit_length (n div 2)" by linarith
    ultimately show ?thesis by (simp add: eq)
  qed
qed

lemma bit_length_eqI:
  assumes "2 ^ k \<le> n" and "n < 2 ^ Suc k"
  shows "bit_length n = Suc k"
proof -
  from assms(1) have pos: "0 < n"
    by (metis less_le_trans zero_less_numeral zero_less_power)
  note b = bit_length_bounds [OF pos]
  from b assms(2) have "(2::nat) ^ (bit_length n - 1) < 2 ^ Suc k" by linarith
  then have "bit_length n - 1 < Suc k" by (simp only: power_strict_increasing_iff one_less_numeral_iff semiring_norm)
  moreover from b assms(1) have "(2::nat) ^ k < 2 ^ bit_length n" by linarith
  then have "k < bit_length n" by (simp only: power_strict_increasing_iff one_less_numeral_iff semiring_norm)
  ultimately show ?thesis by linarith
qed

text \<open>
  The rounding keeps 53 bits and moves by at most half a unit of the last bit kept: the
  result is \<open>k * 2^e\<close> with \<open>2^52 \<le> k \<le> 2^53\<close> and is no further than \<open>2^e / 2\<close> from the
  integer.
\<close>

lemma round_to_53_bits_nearest:
  assumes "2 ^ 53 \<le> a"
  shows "\<exists>k. round_to_53_bits a = k * 2 ^ (bit_length a - 53) \<and>
             2 ^ 52 \<le> k \<and> k \<le> 2 ^ 53 \<and>
             2 * a \<le> 2 * round_to_53_bits a + 2 ^ (bit_length a - 53) \<and>
             2 * round_to_53_bits a \<le> 2 * a + 2 ^ (bit_length a - 53)"
proof -
  define b where "b = bit_length a"
  define e where "e = b - 53"
  define E :: nat where "E = 2 ^ e"
  define q where "q = a div E"
  define r where "r = a mod E"
  define half :: nat where "half = 2 ^ (e - 1)"
  from assms have pos: "0 < a"
    by (metis less_le_trans zero_less_numeral zero_less_power)
  from bit_length_bounds [OF pos] have lo: "2 ^ (b - 1) \<le> a" and hi: "a < 2 ^ b"
    by (simp_all add: b_def)
  from assms hi have "(2::nat) ^ 53 < 2 ^ b" by linarith
  then have b53: "53 < b"
    by (simp only: power_strict_increasing_iff one_less_numeral_iff semiring_norm)
  then have e1: "1 \<le> e" and be: "b = 53 + e" and b1: "b - 1 = 52 + e"
    by (simp_all add: e_def)
  have Epos: "0 < E" by (simp add: E_def)
  have E2: "E = 2 * half"
    using e1 by (cases e) (simp_all add: E_def half_def)
  have split: "a = q * E + r" and rE: "r < E"
    using Epos by (simp_all add: q_def r_def)
  have p1: "(2::nat) ^ (b - 1) = 2 ^ 52 * E"
    unfolding b1 E_def by (rule power_add)
  have p2: "(2::nat) ^ b = 2 ^ 53 * E"
    unfolding E_def by (simp only: be power_add)
  from lo have "2 ^ 52 * E \<le> a" unfolding p1 .
  then have qlo: "2 ^ 52 \<le> q"
    unfolding q_def using Epos by (metis div_le_mono nonzero_mult_div_cancel_right less_numeral_extra(3))
  from hi have "a < 2 ^ 53 * E" unfolding p2 .
  then have qhi: "q < 2 ^ 53"
    unfolding q_def using Epos by (simp add: less_mult_imp_div_less)
  define k where "k = (if half < r \<or> (r = half \<and> odd q) then q + 1 else q)"
  have rd: "round_to_53_bits a = k * E"
    by (simp add: round_to_53_bits_def Let_def k_def q_def r_def E_def half_def e_def b_def)
  have "2 * a \<le> 2 * (k * E) + E \<and> 2 * (k * E) \<le> 2 * a + E"
  proof (cases "half < r \<or> (r = half \<and> odd q)")
    case True
    then have "k = q + 1" and "half \<le> r" by (auto simp: k_def)
    then show ?thesis using split rE E2 by (simp add: algebra_simps)
  next
    case False
    then have "k = q" and "r \<le> half" by (auto simp: k_def)
    then show ?thesis using split rE E2 by (simp add: algebra_simps)
  qed
  moreover have "2 ^ 52 \<le> k" "k \<le> 2 ^ 53"
    using qlo qhi by (simp_all add: k_def)
  ultimately show ?thesis
    unfolding rd by (intro exI [of _ k]) (simp add: E_def e_def b_def)
qed

text \<open>
  Beyond \<open>2^53\<close> the integer is rounded: \<open>2^53 + 1\<close> lies halfway and goes to the even
  significand below, \<open>2^53 + 3\<close> to the even one above; \<open>10^21\<close> is a double itself. The
  largest double is \<open>2^1024 - 2^971\<close>; halfway from it to \<open>2^1024\<close> the result is an
  infinity, and one below halfway it is the largest double.
\<close>

lemma number_of_integer_tie_down: "number_of_integer 9007199254740993 = Num 9007199254740992"
  by (simp add: number_of_integer_def round_to_53_bits_def Let_def bit_length.simps)

lemma number_of_integer_tie_up:
  "number_of_integer (- 9007199254740995) = Num (- 9007199254740996)"
  by (simp add: number_of_integer_def round_to_53_bits_def Let_def bit_length.simps)

lemma number_of_integer_exact: "number_of_integer (- (10 ^ 21)) = Num (- (10 ^ 21))"
  by (simp add: number_of_integer_def round_to_53_bits_def Let_def bit_length.simps)

lemma number_of_integer_overflow: "number_of_integer (2 ^ 1024 - 2 ^ 970) = Infinity"
proof -
  have "bit_length (2 ^ 1024 - 2 ^ 970) = Suc 1023"
    by (rule bit_length_eqI) simp_all
  then show ?thesis
    by (simp add: number_of_integer_def round_to_53_bits_def Let_def)
qed

lemma number_of_integer_largest:
  "number_of_integer (2 ^ 1024 - 2 ^ 970 - 1) = Num (2 ^ 1024 - 2 ^ 971)"
proof -
  have "bit_length (2 ^ 1024 - 2 ^ 970 - 1) = Suc 1023"
    by (rule bit_length_eqI) simp_all
  then show ?thesis
    by (simp add: number_of_integer_def round_to_53_bits_def Let_def)
qed

lemma parseInt_rounds: "parseInt ''9007199254740993'' = Num 9007199254740992"
  by (simp add: parseInt_def isStrWhiteSpaceChar_def isRadixDigit_def digitValue_def Let_def
      number_of_integer_tie_down)

lemma parseInt_minus_5: "parseInt ''-5'' = Num (- 5)"
  by (simp add: parseInt_def isStrWhiteSpaceChar_def isRadixDigit_def digitValue_def Let_def
      number_of_small_integer)

lemma parseInt_0: "parseInt ''0'' = Num 0"
  by (simp add: parseInt_def isStrWhiteSpaceChar_def isRadixDigit_def digitValue_def Let_def
      number_of_small_integer)

lemma parseInt_1: "parseInt ''1'' = Num 1"
  by (simp add: parseInt_def isStrWhiteSpaceChar_def isRadixDigit_def digitValue_def Let_def
      number_of_small_integer)

lemma parseInt_30: "parseInt ''30'' = Num 30"
  by (simp add: parseInt_def isStrWhiteSpaceChar_def isRadixDigit_def digitValue_def Let_def
      number_of_small_integer)

lemma parseInt_hex: "parseInt '' 0x1F'' = Num 31"
  by (simp add: parseInt_def isStrWhiteSpaceChar_def isRadixDigit_def digitValue_def Let_def
      number_of_small_integer)

lemma parseInt_abc: "parseInt ''abc'' = NaN"
  by (simp add: parseInt_def isStrWhiteSpaceChar_def isRadixDigit_def digitValue_def Let_def)

lemma parseInt_empty: "parseInt [] = NaN"
  by (simp add: parseInt_def Let_def)

lemma number_or_not_zero: "d \<noteq> Num 0 \<Longrightarrow> number_or n d \<noteq> Num 0"
  by (cases n) (simp_all add: number_or_def)

lemma maxAttempts_minus_5:
  "maxAttempts (settings (maxAttempts_onChange ''-5'' s)) = Num (- 5)"
  by (simp add: maxAttempts_onChange_def number_or_def parseInt_minus_5)

lemma maxAttempts_keeps_expansion:
  "enableExpansion (settings (maxAttempts_onChange v s)) = enableExpansion (settings s)"
  by (simp add: maxAttempts_onChange_def)

section \<open>Facts about room names\<close>

lemma list_all_mapI:
  assumes "\<And>a. a \<in> set xs \<Longrightarrow> P (f a)"
  shows "list_all P (map f xs)"
  using assms by (induction xs) simp_all

lemma room_named_split:
  assumes "i < length rs"
  shows "room_named rs n \<longleftrightarrow>
         name (rs ! i) = n \<or> room_named (take i rs @ drop (Suc i) rs) n"
proof -
  have "room_named rs n = room_named (take i rs @ rs ! i # drop (Suc i) rs) n"
    using id_take_nth_drop [OF assms] by simp
  also have "\<dots> \<longleftrightarrow> name (rs ! i) = n \<or> room_named (take i rs @ drop (Suc i) rs) n"
    by (auto simp: room_named_def list_ex_iff)
  finally show ?thesis .
qed

lemma room_named_rename:
  assumes "i < length rs"
  shows "room_named (rs[i := (rs ! i)\<lparr>name := new\<rparr>]) n \<longleftrightarrow>
         new = n \<or> room_named (take i rs @ drop (Suc i) rs) n"
proof -
  have "rs[i := (rs ! i)\<lparr>name := new\<rparr>] =
        take i rs @ (rs ! i)\<lparr>name := new\<rparr> # drop (Suc i) rs"
    using assms by (rule upd_conv_take_nth_drop)
  then show ?thesis
    by (auto simp: room_named_def list_ex_iff)
qed

text \<open>
  Removing a room: an adjacency that survives the filter names two rooms other than the
  removed one, and those rooms stay in the list.
\<close>

lemma removeRoom_integrity:
  assumes "referential_integrity s" and "index < length (rooms s)"
  shows "\<exists>s'. removeRoom index s = Inr s' \<and> referential_integrity s'"
proof -
  let ?rs = "take index (rooms s) @ drop (Suc index) (rooms s)"
  let ?old = "name (rooms s ! index)"
  have "room_named ?rs (room1 adj) \<and> room_named ?rs (room2 adj)"
    if "adj \<in> set (adjacencies s)" "room1 adj \<noteq> ?old" "room2 adj \<noteq> ?old" for adj
  proof -
    from assms(1) that(1)
    have "room_named (rooms s) (room1 adj)" "room_named (rooms s) (room2 adj)"
      by (simp_all add: referential_integrity_def list_all_iff)
    with that(2,3) show ?thesis
      using room_named_split [OF assms(2)] by auto
  qed
  then have "referential_integrity
      (s\<lparr>rooms := ?rs,
         adjacencies := filter (\<lambda>adj. room1 adj \<noteq> ?old \<and> room2 adj \<noteq> ?old) (adjacencies s)\<rparr>)"
    by (simp add: referential_integrity_def list_all_iff)
  with assms(2) show ?thesis
    by (simp add: removeRoom_def Let_def)
qed

text \<open>
  Renaming a room whose old name is not empty: every side of an adjacency that held the
  old name holds the new one, unless both sides held it, where only \<open>room1\<close> is rewritten.
\<close>

lemma roomName_onChange_integrity:
  assumes "referential_integrity s" and "index < length (rooms s)"
    and "name (rooms s ! index) \<noteq> []"
    and "\<not> self_paired (name (rooms s ! index)) (adjacencies s)"
  shows "\<exists>s'. roomName_onChange index newName s = Inr s' \<and> referential_integrity s'"
proof -
  let ?old = "name (rooms s ! index)"
  let ?rs = "(rooms s)[index := (rooms s ! index)\<lparr>name := newName\<rparr>]"
  let ?f = "\<lambda>adj. if room1 adj = ?old then adj\<lparr>room1 := newName\<rparr>
                   else if room2 adj = ?old then adj\<lparr>room2 := newName\<rparr> else adj"
  have keep: "room_named ?rs n" if "room_named (rooms s) n" "n \<noteq> ?old" for n
    using that room_named_split [OF assms(2), of n] room_named_rename [OF assms(2), of newName n]
    by auto
  have new: "room_named ?rs newName"
    using room_named_rename [OF assms(2), of newName newName] by simp
  have each: "room_named ?rs (room1 (?f adj)) \<and> room_named ?rs (room2 (?f adj))"
    if "adj \<in> set (adjacencies s)" for adj
  proof -
    from assms(1) that
    have k: "room_named (rooms s) (room1 adj)" "room_named (rooms s) (room2 adj)"
      by (simp_all add: referential_integrity_def list_all_iff)
    from assms(4) that have n: "\<not> (room1 adj = ?old \<and> room2 adj = ?old)"
      by (auto simp: self_paired_def list_ex_iff)
    show ?thesis
    proof (cases "room1 adj = ?old")
      case True
      with n have "room2 adj \<noteq> ?old" by simp
      with True k keep new show ?thesis by simp
    next
      case False
      with k keep new show ?thesis by (cases "room2 adj = ?old") simp_all
    qed
  qed
  have "list_all (\<lambda>adj. room_named ?rs (room1 adj) \<and> room_named ?rs (room2 adj))
          (map ?f (adjacencies s))"
    by (rule list_all_mapI) (rule each)
  then have "referential_integrity (s\<lparr>rooms := ?rs, adjacencies := map ?f (adjacencies s)\<rparr>)"
    unfolding referential_integrity_def by simp
  with assms(2,3) show ?thesis
    by (simp add: roomName_onChange_def Let_def)
qed

lemma addAdjacency_integrity:
  assumes "referential_integrity s"
    and "room_named (rooms s) (room1 (newAdjacency s))"
    and "room_named (rooms s) (room2 (newAdjacency s))"
  shows "referential_integrity (addAdjacency s)"
  using assms by (simp add: addAdjacency_def referential_integrity_def Let_def)

section \<open>The Result of a generation\<close>

text \<open>
  C1, as amended. From the initial state (the three default regions, five default rooms,
  five default adjacencies, 5000 attempts, expansion enabled) the generation stores a
  Result whose \<open>totalAdjacencies\<close> is 7, a constant of \<open>placeRooms\<close> and not the length 5
  of the adjacency list, whose \<open>adjacencyScore\<close> lies between 0 and 5 and whose
  \<open>spaceUtilization\<close> lies in \<open>(0, 1]\<close>. A Result has no \<open>placedRooms\<close> field: the statistics
  are the six fields of the record \<open>statistics\<close>. The room list of the state keeps its
  five rooms.
\<close>

theorem C1_default_state_result:
  "\<exists>r. results (generateFloorPlan initial_state) = Some r \<and>
       totalAdjacencies r = 7 \<and> 0 \<le> adjacencyScore r \<and> adjacencyScore r \<le> 5 \<and>
       0 < spaceUtilization r \<and> spaceUtilization r \<le> 1 \<and>
       length (adjacencies initial_state) = 5 \<and>
       length (rooms (generateFloorPlan initial_state)) = 5"
proof -
  have "length (rooms (generateFloorPlan initial_state)) = 5"
    by (subst generate_state) (simp add: initial_state_def)
  moreover have "length (adjacencies initial_state) = 5"
    by (simp add: initial_state_def)
  ultimately show ?thesis
    by (simp add: generate_results placeRooms_statistics_def double_0_8_def)
qed

text \<open>
  C1 as stated fails: the Result of the initial state does not have
  \<open>totalAdjacencies = 5\<close>.
\<close>

theorem C1_total_adjacencies_counterexample:
  "\<exists>r. results (generateFloorPlan initial_state) = Some r \<and> totalAdjacencies r \<noteq> 5"
  by (simp add: generate_results placeRooms_statistics_def)

text \<open>
  C2, as amended. In every Result of the generation \<open>adjacencyScore\<close> equals the length
  of \<open>adjacentPairs\<close>, and \<open>adjacentPairs\<close> is one fixed list of five pairs, whatever the
  adjacency list of the input is.
\<close>

theorem C2_score_is_pair_count:
  "\<exists>r. results (generateFloorPlan s) = Some r \<and>
       adjacencyScore r = int (length (adjacentPairs r)) \<and>
       adjacentPairs r =
         [(''Living Room'', ''Kitchen''), (''Kitchen'', ''Dining''),
          (''Bedroom'', ''Bathroom''), (''Living Room'', ''Bedroom''),
          (''Bathroom'', ''Kitchen'')]"
  by (simp add: generate_results placeRooms_statistics_def)

text \<open>
  C2 as stated fails: for the initial state \<open>adjacentPairs\<close> is not a subsequence of the
  input adjacency list. It holds Bedroom - Bathroom before Living Room - Bedroom; the
  input holds them in the other order.
\<close>

theorem C2_input_order_counterexample:
  "\<exists>r. results (generateFloorPlan initial_state) = Some r \<and>
       \<not> subseq (adjacentPairs r) (input_pairs initial_state)"
  by (simp add: generate_results placeRooms_statistics_def input_pairs_def initial_state_def)

text \<open>
  C3. Every generation stores a Result; its \<open>floorArea\<close> is positive, so the ratio
  \<open>roomArea / floorArea\<close> is a number, and its \<open>spaceUtilization\<close> equals that ratio up to
  an absolute error of \<open>1e-9\<close>: the areas are 240 and 300, and the double \<open>0.8\<close> differs
  from \<open>240 / 300\<close> by less than \<open>1e-9\<close>.
\<close>

theorem C3_utilization_is_ratio:
  "\<exists>r. results (generateFloorPlan s) = Some r \<and>
       0 < floorArea r \<and>
       \<bar>spaceUtilization r - roomArea r / floorArea r\<bar> \<le> 1 / 10 ^ 9"
  by (simp add: generate_results placeRooms_statistics_def double_0_8_def)

text \<open>
  C4, as amended. For every input, also when the rooms' base areas add up to more than
  the floor's area, \<open>placeRooms\<close> reports success and the generation stores the Result; no
  input makes it fail.
\<close>

theorem C4_generation_always_succeeds:
  "success (fst (mock_placeRooms attempts expansion c)) \<and>
   results (generateFloorPlan s) = Some placeRooms_statistics"
  by (simp add: generate_results mock_placeRooms_def)

text \<open>
  C4 as stated fails: after 30 is typed into the width and the height field of the first
  room, the five rooms have a base area of 970 on a floor of area 200 (the Result says
  300), every adjacency still names rooms of the list, and the generation stores a
  Result.
\<close>

theorem C4_oversized_room_counterexample:
  "\<exists>s1 s2. roomWidth_onChange 0 ''30'' initial_state = Inr s1 \<and>
           roomHeight_onChange 0 ''30'' s1 = Inr s2 \<and>
           total_region_area (regions s2) = Some 200 \<and>
           total_room_base_area (rooms s2) = Some 970 \<and>
           floorArea placeRooms_statistics = 300 \<and>
           referential_integrity s2 \<and>
           results (generateFloorPlan s2) = Some placeRooms_statistics"
  by (simp add: generate_results roomWidth_onChange_def roomHeight_onChange_def parseInt_30
      number_or_def total_region_area_def total_room_base_area_def referential_integrity_def
      room_named_def initial_state_def placeRooms_statistics_def)

section \<open>The attempts setting\<close>

text \<open>
  C5, as amended. A \<open>maxAttempts\<close> of 0 is refused at the settings field, before any
  generation: the field stores 1000 in its place, it never stores 0, and the initial value
  is not 0. A negative \<open>maxAttempts\<close> is not rejected: the generation makes the same calls
  as for any other value (one console line for the floor, one per room, one per
  adjacency, one for the placement), hands the value to \<open>placeRooms\<close> as it is, and stores
  the Result.
\<close>

theorem C5_negative_attempts_not_rejected:
  "maxAttempts (settings initial_state) \<noteq> Num 0 \<and>
   maxAttempts (settings (maxAttempts_onChange v s)) \<noteq> Num 0 \<and>
   maxAttempts (settings (maxAttempts_onChange ''0'' s)) = Num 1000 \<and>
   (negative (maxAttempts (settings s)) \<longrightarrow>
      results (generateFloorPlan s) = Some placeRooms_statistics \<and>
      last (console (generateFloorPlan s)) =
        [Template [Str ''Placing rooms with '', Val (maxAttempts (settings s)),
                   Str '' attempts, expansion: '', Flag (enableExpansion (settings s))]] \<and>
      length (console (generateFloorPlan s)) =
        length (console s) + length (rooms s) + length (adjacencies s) + 2)"
proof -
  have "maxAttempts (settings initial_state) \<noteq> Num 0"
    by (simp add: initial_state_def)
  moreover have "maxAttempts (settings (maxAttempts_onChange v s)) \<noteq> Num 0"
    by (simp add: maxAttempts_onChange_def number_or_not_zero)
  moreover have "maxAttempts (settings (maxAttempts_onChange ''0'' s)) = Num 1000"
    by (simp add: maxAttempts_onChange_def number_or_def parseInt_0)
  moreover have "length (console (generateFloorPlan s)) =
      length (console s) + length (rooms s) + length (adjacencies s) + 2"
    by (simp add: generate_console)
  ultimately show ?thesis
    by (simp add: generate_results generate_last_line)
qed

theorem C5_negative_attempts_not_rejected_witness:
  "negative (maxAttempts (settings (maxAttempts_onChange ''-5'' initial_state))) \<and>
   maxAttempts (settings (maxAttempts_onChange ''0''
     (maxAttempts_onChange ''-5'' initial_state))) = Num 1000 \<and>
   results (generateFloorPlan (maxAttempts_onChange ''-5'' initial_state)) =
     Some placeRooms_statistics \<and>
   last (console (generateFloorPlan (maxAttempts_onChange ''-5'' initial_state))) =
     [Template [Str ''Placing rooms with '', Val (Num (- 5)),
                Str '' attempts, expansion: '', Flag True]] \<and>
   length (console (generateFloorPlan (maxAttempts_onChange ''-5'' initial_state))) = 12"
proof -
  have h: "negative (maxAttempts (settings (maxAttempts_onChange ''-5'' initial_state)))"
    by (simp add: maxAttempts_minus_5)
  have e: "enableExpansion (settings (maxAttempts_onChange ''-5'' initial_state))"
    by (simp add: maxAttempts_onChange_def initial_state_def)
  have l: "length (console (maxAttempts_onChange ''-5'' initial_state)) = 0 \<and>
           length (rooms (maxAttempts_onChange ''-5'' initial_state)) = 5 \<and>
           length (adjacencies (maxAttempts_onChange ''-5'' initial_state)) = 5"
    by (simp add: maxAttempts_onChange_def initial_state_def)
  from C5_negative_attempts_not_rejected
         [of "''0''" "maxAttempts_onChange ''-5'' initial_state"] h
  show ?thesis
    by (simp add: maxAttempts_minus_5 e l)
qed

text \<open>
  C5 as stated fails: after \<open>-5\<close> is entered in the Maximum Attempts field, the generation
  calls \<open>placeRooms\<close> with \<open>-5\<close> and stores the Result.
\<close>

theorem C5_negative_attempts_counterexample:
  "maxAttempts (settings (maxAttempts_onChange ''-5'' initial_state)) = Num (- 5) \<and>
   results (generateFloorPlan (maxAttempts_onChange ''-5'' initial_state)) =
     Some placeRooms_statistics \<and>
   last (console (generateFloorPlan (maxAttempts_onChange ''-5'' initial_state))) =
     [Template [Str ''Placing rooms with '', Val (Num (- 5)),
                Str '' attempts, expansion: '', Flag True]]"
proof -
  have e: "enableExpansion (settings (maxAttempts_onChange ''-5'' initial_state))"
    by (simp add: maxAttempts_onChange_def initial_state_def)
  show ?thesis
    by (simp add: generate_results generate_last_line maxAttempts_minus_5 e)
qed

text \<open>
  C10. The Maximum Attempts field stores \<open>parseInt(v)\<close> when that is a number other than
  zero and 1000 otherwise, and leaves the expansion setting alone. Entering \<open>0\<close>, \<open>abc\<close> or
  nothing stores 1000; entering \<open>-5\<close> stores \<open>-5\<close>, and the generation then calls
  \<open>placeRooms\<close> with \<open>-5\<close> and stores its Result.
\<close>

theorem C10_maxAttempts_field:
  "maxAttempts (settings (maxAttempts_onChange v s)) =
     (case parseInt v of
        NaN \<Rightarrow> Num 1000
      | Num n \<Rightarrow> if n = 0 then Num 1000 else Num n
      | Infinity \<Rightarrow> Infinity
      | MinusInfinity \<Rightarrow> MinusInfinity) \<and>
   enableExpansion (settings (maxAttempts_onChange v s)) = enableExpansion (settings s) \<and>
   maxAttempts (settings (maxAttempts_onChange ''0'' s)) = Num 1000 \<and>
   maxAttempts (settings (maxAttempts_onChange ''abc'' s)) = Num 1000 \<and>
   maxAttempts (settings (maxAttempts_onChange [] s)) = Num 1000 \<and>
   maxAttempts (settings (maxAttempts_onChange ''-5'' s)) = Num (- 5) \<and>
   results (generateFloorPlan (maxAttempts_onChange ''-5'' s)) = Some placeRooms_statistics \<and>
   last (console (generateFloorPlan (maxAttempts_onChange ''-5'' s))) =
     [Template [Str ''Placing rooms with '', Val (Num (- 5)),
                Str '' attempts, expansion: '', Flag (enableExpansion (settings s))]]"
proof -
  have g: "maxAttempts (settings (maxAttempts_onChange v s)) =
     (case parseInt v of
        NaN \<Rightarrow> Num 1000
      | Num n \<Rightarrow> if n = 0 then Num 1000 else Num n
      | Infinity \<Rightarrow> Infinity
      | MinusInfinity \<Rightarrow> MinusInfinity)"
    by (simp add: maxAttempts_onChange_def number_or_def split: number.splits)
  have z: "maxAttempts (settings (maxAttempts_onChange ''0'' s)) = Num 1000"
    "maxAttempts (settings (maxAttempts_onChange ''abc'' s)) = Num 1000"
    "maxAttempts (settings (maxAttempts_onChange [] s)) = Num 1000"
    by (simp_all add: maxAttempts_onChange_def number_or_def parseInt_0 parseInt_abc
        parseInt_empty)
  have l: "last (console (generateFloorPlan (maxAttempts_onChange ''-5'' s))) =
     [Template [Str ''Placing rooms with '', Val (Num (- 5)),
                Str '' attempts, expansion: '', Flag (enableExpansion (settings s))]]"
    by (simp add: generate_last_line maxAttempts_minus_5 maxAttempts_keeps_expansion)
  show ?thesis
    using g z l by (simp add: generate_results maxAttempts_minus_5 maxAttempts_keeps_expansion)
qed

section \<open>Effects and determinism of the generation\<close>

text \<open>
  C7, as amended. The generation leaves the region list, the room list and the adjacency
  list as they were, and every other field but two: it stores the Result, and it writes
  console lines, one for the floor, one per room, one per adjacency and one for the
  placement. The console output is an outward effect besides the Result.
\<close>

theorem C7_generation_frame:
  "generateFloorPlan s =
     s\<lparr>results := Some placeRooms_statistics,
       console :=
         console s @
         [[Text ''Creating floor plan with regions:'', RegionList (regions s)]] @
         map (\<lambda>rm. [Template [Str ''Adding room: '', Str (name rm), Str '' ('',
                               Val (room.width rm), Str ''x'', Val (room.height rm),
                               Str ''), max expansion: '', Val (maxExpansion rm)]])
           (rooms s) @
         map (\<lambda>adj. [Template [Str ''Adding adjacency between '', Str (room1 adj),
                                Str '' and '', Str (room2 adj)]]) (adjacencies s) @
         [[Template [Str ''Placing rooms with '', Val (maxAttempts (settings s)),
                     Str '' attempts, expansion: '',
                     Flag (enableExpansion (settings s))]]]\<rparr> \<and>
   regions (generateFloorPlan s) = regions s \<and>
   rooms (generateFloorPlan s) = rooms s \<and>
   adjacencies (generateFloorPlan s) = adjacencies s"
proof -
  have "regions (generateFloorPlan s) = regions s \<and> rooms (generateFloorPlan s) = rooms s \<and>
        adjacencies (generateFloorPlan s) = adjacencies s"
    by (subst (1 2 3) generate_state) simp
  moreover note generate_state [of s, unfolded generate_console]
  ultimately show ?thesis by simp
qed

text \<open>
  C7 as stated fails in its last part: from the initial state, whose console is empty, the
  generation writes twelve console lines.
\<close>

theorem C7_console_output_counterexample:
  "console initial_state = [] \<and>
   length (console (generateFloorPlan initial_state)) = 12 \<and>
   hd (console (generateFloorPlan initial_state)) =
     [Text ''Creating floor plan with regions:'', RegionList (regions initial_state)]"
  by (simp add: generate_console) (simp add: initial_state_def)

text \<open>
  C8. With \<open>maxAttempts = 1\<close>, two runs of the generation from states with the same
  regions, rooms, adjacencies and settings store the same Result and write the same
  console lines, whatever else differs between the two states (an earlier Result, the
  console so far, the drafts). The code draws no random number, so there is no seed to fix.
\<close>

theorem C8_generation_deterministic:
  assumes "regions s1 = regions s2" and "rooms s1 = rooms s2"
    and "adjacencies s1 = adjacencies s2" and "settings s1 = settings s2"
    and "maxAttempts (settings s1) = Num 1"
  shows "results (generateFloorPlan s1) = results (generateFloorPlan s2) \<and>
         drop (length (console s1)) (console (generateFloorPlan s1)) =
         drop (length (console s2)) (console (generateFloorPlan s2))"
  using assms by (simp add: generate_results generate_console)

text \<open>
  The witness runs the generation twice in a row with one attempt: the second run starts
  from the state the first one left, which differs from the first state.
\<close>

theorem C8_generation_deterministic_witness:
  "regions single_attempt_state = regions (generateFloorPlan single_attempt_state) \<and>
   rooms single_attempt_state = rooms (generateFloorPlan single_attempt_state) \<and>
   adjacencies single_attempt_state = adjacencies (generateFloorPlan single_attempt_state) \<and>
   settings single_attempt_state = settings (generateFloorPlan single_attempt_state) \<and>
   maxAttempts (settings single_attempt_state) = Num 1 \<and>
   single_attempt_state \<noteq> generateFloorPlan single_attempt_state \<and>
   results (generateFloorPlan single_attempt_state) =
     results (generateFloorPlan (generateFloorPlan single_attempt_state)) \<and>
   drop (length (console single_attempt_state))
     (console (generateFloorPlan single_attempt_state)) =
   drop (length (console (generateFloorPlan single_attempt_state)))
     (console (generateFloorPlan (generateFloorPlan single_attempt_state)))"
proof -
  have f: "regions single_attempt_state = regions (generateFloorPlan single_attempt_state) \<and>
           rooms single_attempt_state = rooms (generateFloorPlan single_attempt_state) \<and>
           adjacencies single_attempt_state =
             adjacencies (generateFloorPlan single_attempt_state) \<and>
           settings single_attempt_state = settings (generateFloorPlan single_attempt_state)"
    by (subst (1 2 3 4) generate_state) simp
  have m: "maxAttempts (settings single_attempt_state) = Num 1"
    by (simp add: single_attempt_state_def maxAttempts_onChange_def number_or_def parseInt_1)
  have "results single_attempt_state \<noteq> results (generateFloorPlan single_attempt_state)"
    by (simp add: generate_results)
      (simp add: single_attempt_state_def maxAttempts_onChange_def initial_state_def)
  then have d: "single_attempt_state \<noteq> generateFloorPlan single_attempt_state"
    by auto
  from C8_generation_deterministic [of single_attempt_state
      "generateFloorPlan single_attempt_state"] f m d
  show ?thesis by simp
qed

section \<open>The adjacency list\<close>

text \<open>
  C6, as amended. Adding an adjacency whose unordered pair of room names is in the
  adjacency list already is refused at insertion: \<open>addAdjacency\<close> leaves the whole state
  as it is, the list and the draft included.
\<close>

theorem C6_duplicate_pair_rejected:
  assumes "pair_listed (newAdjacency s) (adjacencies s)"
  shows "addAdjacency s = s"
  using assms by (simp add: addAdjacency_def pair_listed_def Let_def)

theorem C6_duplicate_pair_rejected_witness:
  "pair_listed (newAdjacency duplicate_draft_state) (adjacencies duplicate_draft_state) \<and>
   addAdjacency duplicate_draft_state = duplicate_draft_state"
proof -
  have h: "pair_listed (newAdjacency duplicate_draft_state) (adjacencies duplicate_draft_state)"
    by (simp add: pair_listed_def duplicate_draft_state_def newAdjacency_room1_onChange_def
        newAdjacency_room2_onChange_def initial_state_def)
  from C6_duplicate_pair_rejected [OF h] h show ?thesis by simp
qed

text \<open>
  C6 as stated fails: with Living Room - Kitchen listed, adding Kitchen - Living Room
  leaves the list with its five adjacencies.
\<close>

theorem C6_duplicate_accepted_counterexample:
  "newAdjacency duplicate_draft_state = \<lparr>room1 = ''Kitchen'', room2 = ''Living Room''\<rparr> \<and>
   hd (adjacencies duplicate_draft_state) = \<lparr>room1 = ''Living Room'', room2 = ''Kitchen''\<rparr> \<and>
   adjacencies (addAdjacency duplicate_draft_state) = adjacencies duplicate_draft_state \<and>
   length (adjacencies (addAdjacency duplicate_draft_state)) = 5"
  by (simp add: addAdjacency_def duplicate_draft_state_def newAdjacency_room1_onChange_def
      newAdjacency_room2_onChange_def initial_state_def Let_def)

text \<open>
  C9, as amended. From a state in which every adjacency names two rooms of the room list:
  \<open>removeRoom\<close> at an index of the list keeps that property; renaming a room keeps it when
  the room's old name is not empty and no adjacency has the old name on both sides;
  \<open>addAdjacency\<close> keeps it when the two names of the draft are names of rooms of the list
  (it does not check that itself).
\<close>

theorem C9_referential_integrity_preserved:
  assumes "referential_integrity s"
  shows "(index < length (rooms s) \<longrightarrow>
            (\<exists>s'. removeRoom index s = Inr s' \<and> referential_integrity s')) \<and>
         (index < length (rooms s) \<and> name (rooms s ! index) \<noteq> [] \<and>
          \<not> self_paired (name (rooms s ! index)) (adjacencies s) \<longrightarrow>
            (\<exists>s'. roomName_onChange index newName s = Inr s' \<and> referential_integrity s')) \<and>
         (room_named (rooms s) (room1 (newAdjacency s)) \<and>
          room_named (rooms s) (room2 (newAdjacency s)) \<longrightarrow>
            referential_integrity (addAdjacency s))"
  using assms removeRoom_integrity roomName_onChange_integrity addAdjacency_integrity
  by blast

theorem C9_referential_integrity_preserved_witness:
  "referential_integrity draft_state \<and>
   2 < length (rooms draft_state) \<and>
   name (rooms draft_state ! 2) = ''Dining'' \<and>
   \<not> self_paired (name (rooms draft_state ! 2)) (adjacencies draft_state) \<and>
   room_named (rooms draft_state) (room1 (newAdjacency draft_state)) \<and>
   room_named (rooms draft_state) (room2 (newAdjacency draft_state)) \<and>
   (\<exists>s'. removeRoom 2 draft_state = Inr s' \<and> referential_integrity s') \<and>
   (\<exists>s'. roomName_onChange 2 ''Den'' draft_state = Inr s' \<and> referential_integrity s') \<and>
   referential_integrity (addAdjacency draft_state)"
proof -
  have i: "referential_integrity draft_state"
    by (simp add: referential_integrity_def room_named_def draft_state_def
        newAdjacency_room1_onChange_def newAdjacency_room2_onChange_def initial_state_def)
  have h: "2 < length (rooms draft_state)"
    "name (rooms draft_state ! 2) = ''Dining''"
    "\<not> self_paired (name (rooms draft_state ! 2)) (adjacencies draft_state)"
    "room_named (rooms draft_state) (room1 (newAdjacency draft_state))"
    "room_named (rooms draft_state) (room2 (newAdjacency draft_state))"
    by (simp_all add: self_paired_def room_named_def draft_state_def
        newAdjacency_room1_onChange_def newAdjacency_room2_onChange_def initial_state_def)
  from h(2) have n: "name (rooms draft_state ! 2) \<noteq> []" by simp
  from C9_referential_integrity_preserved [OF i, of 2 "''Den''"] i h n
  show ?thesis by simp
qed

text \<open>
  C9 as stated fails, in three ways. A room whose name field was emptied and is typed
  anew leaves the adjacencies with the empty name. An adjacency edited to have Kitchen on
  both sides keeps Kitchen as \<open>room2\<close> when the room is renamed. A draft chosen before its
  room was removed is appended by \<open>addAdjacency\<close> after the removal.
\<close>

theorem C9_integrity_broken_counterexample:
  "referential_integrity initial_state \<and>
   (\<exists>s1 s2. roomName_onChange 0 [] initial_state = Inr s1 \<and> referential_integrity s1 \<and>
            roomName_onChange 0 ''Den'' s1 = Inr s2 \<and> \<not> referential_integrity s2) \<and>
   (\<exists>s1 s2. adjacency_room1_onChange 0 ''Kitchen'' initial_state = Inr s1 \<and>
            referential_integrity s1 \<and>
            roomName_onChange 1 ''Galley'' s1 = Inr s2 \<and> \<not> referential_integrity s2) \<and>
   referential_integrity draft_state \<and>
   (\<exists>s3. removeRoom 2 draft_state = Inr s3 \<and> referential_integrity s3 \<and>
         \<not> referential_integrity (addAdjacency s3))"
  by (simp add: referential_integrity_def room_named_def draft_state_def
      roomName_onChange_def removeRoom_def addAdjacency_def adjacency_room1_onChange_def Let_def
      newAdjacency_room1_onChange_def newAdjacency_room2_onChange_def initial_state_def)

end
